theory Spec2Isabelle
  imports Main "HOL-Library.Word"
begin

unbundle bit_operations_syntax

section \<open>The Keystone timer driver (timer.c)\<close>

text \<open>
  The driver programs a memory-mapped TI Keystone timer block. The embedding follows
  \<^verbatim>\<open>timer.c\<close> function by function. \<^verbatim>\<open>uint32_t\<close> and \<^verbatim>\<open>uint64_t\<close> are words, so
  multiplication wraps and casts truncate as in C. The device memory is a store from
  mapped addresses to register maps; a store to a register field updates the field and is
  appended to a log, a \<^verbatim>\<open>dmb()\<close> is appended to the same log. A load returns the value last
  stored: the device's own reactions to a store (counting, write-one-to-clear status
  bits) are not part of the C source and are not modelled.
\<close>

type_synonym uint32_t = "32 word"
type_synonym uint64_t = "64 word"
type_synonym vaddr = nat

subsection \<open>Register bitfields and the tick conversion macro\<close>

definition TCR_ENAMODE_MASK :: uint32_t where
  "TCR_ENAMODE_MASK = 0xC0"

definition TCR_ENAMODE_ONESHOT_MASK :: uint32_t where
  "TCR_ENAMODE_ONESHOT_MASK = 0x40"

definition TCR_ENAMODE_PERIODIC_MASK :: uint32_t where
  "TCR_ENAMODE_PERIODIC_MASK = 0x80"

definition TGCR_TIM_UNRESET_MASK :: uint32_t where
  "TGCR_TIM_UNRESET_MASK = 0x03"

definition INTCTLSTAT_ENINT_MASK :: uint32_t where
  "INTCTLSTAT_ENINT_MASK = 0x01"

definition INTCTLSTAT_ACK_MASK :: uint32_t where
  "INTCTLSTAT_ACK_MASK = 0x03"

definition TICKS_PER_SECOND :: uint64_t where
  "TICKS_PER_SECOND = 204800000"

text \<open>
  \<^verbatim>\<open>((uint32_t)(1ULL * (ns) * TICKS_PER_SECOND / 1000 / 1000 / 1000))\<close>: the product is
  formed in \<^verbatim>\<open>unsigned long long\<close> (64 bits, wrapping), divided three times, and the
  quotient is cast to 32 bits.
\<close>

definition TIMER_INTERVAL_TICKS :: "uint64_t \<Rightarrow> uint32_t" where
  "TIMER_INTERVAL_TICKS ns = ucast (1 * ns * TICKS_PER_SECOND div 1000 div 1000 div 1000)"

text \<open>
  The reference of the specification: \<open>ns * TICKS_PER_SECOND / 1_000_000_000\<close> on
  unbounded naturals, with no wrap-around and no truncation.
\<close>

definition exact_ticks :: "nat \<Rightarrow> nat" where
  "exact_ticks ns = ns * 204800000 div 1000000000"

subsection \<open>Data\<close>

record keystone_timer_map =
  emumgt_clkspd :: uint32_t
  cntlo :: uint32_t
  cnthi :: uint32_t
  prdlo :: uint32_t
  prdhi :: uint32_t
  tcr :: uint32_t
  tgcr :: uint32_t
  wdtcr :: uint32_t
  rello :: uint32_t
  relhi :: uint32_t
  caplo :: uint32_t
  caphi :: uint32_t
  intctlstat :: uint32_t

text \<open>\<^verbatim>\<open>keystone_timer_t\<close>: \<open>hw\<close> is the address of the register map, not a copy of it.\<close>

record keystone_timer =
  hw :: vaddr
  irq :: uint32_t

text \<open>
  \<^verbatim>\<open>timer_config_t\<close>, \<^verbatim>\<open>pstimer_t\<close> and its \<^verbatim>\<open>properties\<close> are declared in headers outside
  \<^verbatim>\<open>timer.c\<close>; the records hold the fields \<^verbatim>\<open>ps_get_timer\<close> assigns. A function pointer is
  the name of the function it points to, \<open>data\<close> is the index of the bound slot of
  \<^verbatim>\<open>kts\<close> (\<open>None\<close> is the null pointer of the zero-initialised pool).
\<close>

record timer_config =
  config_vaddr :: vaddr
  config_irq :: uint32_t

record timer_properties =
  upcounter :: bool
  timeouts :: bool
  relative_timeouts :: bool
  periodic_timeouts :: bool
  absolute_timeouts :: bool
  bit_width :: nat
  irqs :: nat

datatype fnptr =
  Null_fn
  | Fn_keystone_timer_start
  | Fn_keystone_timer_stop
  | Fn_keystone_get_time
  | Fn_stub_timer_timeout
  | Fn_keystone_oneshot_relative
  | Fn_keystone_periodic
  | Fn_keystone_handle_irq
  | Fn_keystone_get_nth_irq

record pstimer =
  properties :: timer_properties
  data :: "nat option"
  start :: fnptr
  stop :: fnptr
  get_time :: fnptr
  oneshot_absolute :: fnptr
  oneshot_relative :: fnptr
  periodic :: fnptr
  handle_irq :: fnptr
  get_nth_irq :: fnptr

text \<open>What the device sees: stores to register fields and barriers, in program order.\<close>

datatype reg = CNTLO | CNTHI | PRDLO | PRDHI | TCR | TGCR | INTCTLSTAT

datatype event = Store vaddr reg uint32_t | Dmb

text \<open>
  The whole state: the two static pools \<^verbatim>\<open>timers[NTIMERS]\<close> and \<^verbatim>\<open>kts[NTIMERS]\<close>, the
  device memory and the log.
\<close>

record machine =
  timers :: "pstimer list"
  kts :: "keystone_timer list"
  mem :: "vaddr \<Rightarrow> keystone_timer_map"
  log :: "event list"

datatype error = EINVAL

subsection \<open>Register access\<close>

fun set_reg :: "reg \<Rightarrow> uint32_t \<Rightarrow> keystone_timer_map \<Rightarrow> keystone_timer_map" where
  "set_reg CNTLO v m = m\<lparr>cntlo := v\<rparr>"
| "set_reg CNTHI v m = m\<lparr>cnthi := v\<rparr>"
| "set_reg PRDLO v m = m\<lparr>prdlo := v\<rparr>"
| "set_reg PRDHI v m = m\<lparr>prdhi := v\<rparr>"
| "set_reg TCR v m = m\<lparr>tcr := v\<rparr>"
| "set_reg TGCR v m = m\<lparr>tgcr := v\<rparr>"
| "set_reg INTCTLSTAT v m = m\<lparr>intctlstat := v\<rparr>"

text \<open>\<^verbatim>\<open>kt->hw->field = v\<close> on the volatile register map at address \<open>a\<close>.\<close>

definition hw_store :: "vaddr \<Rightarrow> reg \<Rightarrow> uint32_t \<Rightarrow> machine \<Rightarrow> machine" where
  "hw_store a r v s = s\<lparr>mem := (mem s)(a := set_reg r v (mem s a)), log := log s @ [Store a r v]\<rparr>"

definition dmb :: "machine \<Rightarrow> machine" where
  "dmb s = s\<lparr>log := log s @ [Dmb]\<rparr>"

subsection \<open>The operations\<close>

text \<open>
  Every operation starts with \<^verbatim>\<open>kt = (keystone_timer_t *)timer->data\<close> and only reads
  \<^verbatim>\<open>kt->hw\<close> and \<^verbatim>\<open>kt->irq\<close>; the model takes that \<open>kt\<close> as its argument. A C return
  value of 0 is \<open>Inr ()\<close>.
\<close>

definition keystone_timer_reset :: "keystone_timer \<Rightarrow> machine \<Rightarrow> machine" where
  "keystone_timer_reset kt s0 =
    (let s1 = hw_store (hw kt) TCR 0 s0;
         s2 = dmb s1;
         s3 = hw_store (hw kt) TGCR 0 s2;
         s4 = hw_store (hw kt) TGCR TGCR_TIM_UNRESET_MASK s3;
         s5 = hw_store (hw kt) CNTLO 0 s4;
         s6 = hw_store (hw kt) CNTHI 0 s5;
         s7 = hw_store (hw kt) INTCTLSTAT INTCTLSTAT_ENINT_MASK s6
     in s7)"

definition keystone_timer_stop :: "keystone_timer \<Rightarrow> machine \<Rightarrow> (error + unit) \<times> machine" where
  "keystone_timer_stop kt s =
    (Inr (), hw_store (hw kt) TCR (tcr (mem s (hw kt)) AND NOT TCR_ENAMODE_MASK) s)"

definition keystone_timer_start :: "keystone_timer \<Rightarrow> machine \<Rightarrow> (error + unit) \<times> machine" where
  "keystone_timer_start kt s =
    (Inr (), hw_store (hw kt) TCR (tcr (mem s (hw kt)) OR TCR_ENAMODE_MASK) s)"

text \<open>
  \<open>ticks\<close> is a \<^verbatim>\<open>uint64_t\<close> initialised from the 32-bit value of the macro; \<open>tcrFlags\<close> is
  the \<^verbatim>\<open>int\<close> argument after its conversion to \<^verbatim>\<open>uint32_t\<close> in \<^verbatim>\<open>tcr |= tcrFlags\<close>.
\<close>

definition keystone_set_timeo ::
  "keystone_timer \<Rightarrow> uint64_t \<Rightarrow> uint32_t \<Rightarrow> machine \<Rightarrow> (error + unit) \<times> machine" where
  "keystone_set_timeo kt ns tcrFlags s0 =
    (let ticks = (ucast (TIMER_INTERVAL_TICKS ns) :: uint64_t) in
     if ticks < 2 then (Inl EINVAL, s0)
     else
       let tcr0 = tcr (mem s0 (hw kt));
           off = tcr0 AND NOT TCR_ENAMODE_MASK;
           tcr1 = tcr0 OR tcrFlags;
           s1 = hw_store (hw kt) TCR off s0;
           s2 = dmb s1;
           s3 = hw_store (hw kt) CNTLO 0 s2;
           s4 = hw_store (hw kt) CNTHI 0 s3;
           s5 = hw_store (hw kt) PRDLO (ucast (ticks AND 0xffffffff)) s4;
           s6 = hw_store (hw kt) PRDHI (ucast (drop_bit 32 ticks)) s5;
           s7 = hw_store (hw kt) INTCTLSTAT INTCTLSTAT_ACK_MASK s6;
           s8 = dmb s7;
           s9 = hw_store (hw kt) TCR tcr1 s8
       in (Inr (), s9))"

definition keystone_periodic ::
  "keystone_timer \<Rightarrow> uint64_t \<Rightarrow> machine \<Rightarrow> (error + unit) \<times> machine" where
  "keystone_periodic kt ns s = keystone_set_timeo kt ns TCR_ENAMODE_PERIODIC_MASK s"

definition keystone_oneshot_relative ::
  "keystone_timer \<Rightarrow> uint64_t \<Rightarrow> machine \<Rightarrow> (error + unit) \<times> machine" where
  "keystone_oneshot_relative kt ns s = keystone_set_timeo kt ns TCR_ENAMODE_ONESHOT_MASK s"

definition keystone_get_time :: "keystone_timer \<Rightarrow> machine \<Rightarrow> uint64_t" where
  "keystone_get_time kt s = ucast (cntlo (mem s (hw kt)))"

definition keystone_handle_irq :: "keystone_timer \<Rightarrow> uint32_t \<Rightarrow> machine \<Rightarrow> machine" where
  "keystone_handle_irq kt irq_arg s = hw_store (hw kt) INTCTLSTAT INTCTLSTAT_ACK_MASK s"

definition keystone_get_nth_irq :: "keystone_timer \<Rightarrow> uint32_t \<Rightarrow> uint32_t" where
  "keystone_get_nth_irq kt n = irq kt"

text \<open>
  \<^verbatim>\<open>NTIMERS\<close> comes from the platform header and is a parameter. \<^verbatim>\<open>enum timer_id\<close> has no
  negative enumerator, so the argument \<^verbatim>\<open>id\<close> is a natural number, \<open>tid\<close>. The result is the index of the
  returned element of \<^verbatim>\<open>timers\<close>, or \<open>None\<close> for \<^verbatim>\<open>NULL\<close>.
\<close>

definition ps_get_timer ::
  "nat \<Rightarrow> nat \<Rightarrow> timer_config \<Rightarrow> machine \<Rightarrow> nat option \<times> machine" where
  "ps_get_timer NTIMERS tid config s0 =
    (if tid \<ge> NTIMERS then (None, s0)
     else
       let timer = (timers s0 ! tid)
             \<lparr>properties := \<lparr>upcounter = False, timeouts = True, relative_timeouts = True,
                             periodic_timeouts = True, absolute_timeouts = False,
                             bit_width = 32, irqs = 1\<rparr>,
              data := Some tid,
              start := Fn_keystone_timer_start,
              stop := Fn_keystone_timer_stop,
              get_time := Fn_keystone_get_time,
              oneshot_absolute := Fn_stub_timer_timeout,
              oneshot_relative := Fn_keystone_oneshot_relative,
              periodic := Fn_keystone_periodic,
              handle_irq := Fn_keystone_handle_irq,
              get_nth_irq := Fn_keystone_get_nth_irq\<rparr>;
           s1 = s0\<lparr>timers := (timers s0)[tid := timer]\<rparr>;
           kt = \<lparr>hw = config_vaddr config, irq = config_irq config\<rparr>;
           s2 = s1\<lparr>kts := (kts s1)[tid := kt]\<rparr>;
           s3 = keystone_timer_reset (kts s2 ! tid) s2
       in (Some tid, s3))"

subsection \<open>States used in the examples\<close>

definition zero_map :: keystone_timer_map where
  "zero_map = \<lparr>emumgt_clkspd = 0, cntlo = 0, cnthi = 0, prdlo = 0, prdhi = 0, tcr = 0,
      tgcr = 0, wdtcr = 0, rello = 0, relhi = 0, caplo = 0, caphi = 0, intctlstat = 0\<rparr>"

definition null_timer :: pstimer where
  "null_timer = \<lparr>properties = \<lparr>upcounter = False, timeouts = False, relative_timeouts = False,
        periodic_timeouts = False, absolute_timeouts = False, bit_width = 0, irqs = 0\<rparr>,
      data = None, start = Null_fn, stop = Null_fn, get_time = Null_fn,
      oneshot_absolute = Null_fn, oneshot_relative = Null_fn, periodic = Null_fn,
      handle_irq = Null_fn, get_nth_irq = Null_fn\<rparr>"

text \<open>The zero-initialised pools of \<open>n\<close> timers over device memory holding \<open>m\<close> everywhere.\<close>

definition boot :: "nat \<Rightarrow> keystone_timer_map \<Rightarrow> machine" where
  "boot n m = \<lparr>timers = replicate n null_timer, kts = replicate n \<lparr>hw = 0, irq = 0\<rparr>,
      mem = (\<lambda>a. m), log = []\<rparr>"

definition demo_kt :: keystone_timer where
  "demo_kt = \<lparr>hw = 0x2200000, irq = 96\<rparr>"

definition demo_config :: timer_config where
  "demo_config = \<lparr>config_vaddr = 0x2200000, config_irq = 96\<rparr>"

subsection \<open>Observing the log and the pools\<close>

text \<open>The values stored to register \<open>r\<close> of the device at \<open>a\<close>, oldest first.\<close>

fun stores_to :: "vaddr \<Rightarrow> reg \<Rightarrow> event list \<Rightarrow> uint32_t list" where
  "stores_to a r [] = []"
| "stores_to a r (Dmb # es) = stores_to a r es"
| "stores_to a r (Store b q v # es) =
     (if b = a \<and> q = r then v # stores_to a r es else stores_to a r es)"

text \<open>Both static arrays have \<^verbatim>\<open>NTIMERS\<close> elements.\<close>

definition pools_ok :: "nat \<Rightarrow> machine \<Rightarrow> bool" where
  "pools_ok NTIMERS s \<longleftrightarrow> length (timers s) = NTIMERS \<and> length (kts s) = NTIMERS"

section \<open>Properties\<close>

subsection \<open>Stores, barriers and casts\<close>

lemma hw_store_simps:
  "mem (hw_store a r v s) = (mem s)(a := set_reg r v (mem s a))"
  "log (hw_store a r v s) = log s @ [Store a r v]"
  "timers (hw_store a r v s) = timers s"
  "kts (hw_store a r v s) = kts s"
  by (simp_all add: hw_store_def)

lemma dmb_simps:
  "mem (dmb s) = mem s"
  "log (dmb s) = log s @ [Dmb]"
  "timers (dmb s) = timers s"
  "kts (dmb s) = kts s"
  by (simp_all add: dmb_def)

text \<open>The comparison \<^verbatim>\<open>ticks < 2\<close> on the widened value is the comparison on the macro's value.\<close>

lemma ticks_var_less: "(ucast (w :: uint32_t) :: uint64_t) < 2 \<longleftrightarrow> unat w < 2"
proof -
  have "unat w < 2 ^ 32" using unsigned_less [of w] by simp
  then have "unat w mod 2 ^ 64 = unat w" by simp
  then show ?thesis
    by (simp add: word_less_nat_alt unsigned_ucast_eq take_bit_eq_mod)
qed

lemma ticks_hi: "(ucast (drop_bit 32 (ucast (w :: uint32_t) :: uint64_t)) :: uint32_t) = 0"
  by (rule bit_word_eqI) (auto simp add: bit_simps dest: bit_imp_le_length)

lemma ticks_lo: "(ucast ((ucast (w :: uint32_t) :: uint64_t) AND 0xffffffff) :: uint32_t) = w"
proof -
  have m: "(0xffffffff :: uint64_t) = mask 32" by (simp add: mask_eq_exp_minus_1)
  show ?thesis unfolding m by (rule bit_word_eqI) (auto simp add: bit_simps)
qed

subsection \<open>The tick conversion\<close>

lemma ticks_general:
  "unat (TIMER_INTERVAL_TICKS ns) = (unat ns * 204800000 mod 2 ^ 64 div 1000000000) mod 2 ^ 32"
proof -
  have p: "unat (ns * 204800000) = unat ns * 204800000 mod 2 ^ 64"
    by (simp add: unat_word_ariths)
  have d: "unat (ns * 204800000 div 1000 div 1000 div 1000) = unat (ns * 204800000) div 1000000000"
    by (simp add: unat_div div_mult2_eq)
  show ?thesis
    unfolding TIMER_INTERVAL_TICKS_def TICKS_PER_SECOND_def
    using p d by (simp add: unsigned_ucast_eq take_bit_eq_mod)
qed

lemma exact_ticks_fits_iff: "exact_ticks n < 2 ^ 32 \<longleftrightarrow> n < 20971520000"
  unfolding exact_ticks_def by (simp add: less_mult_imp_div_less div_less_iff_less_mult)

lemma ticks_exact_of_fit:
  assumes fit: "exact_ticks (unat ns) < 2 ^ 32"
  shows "unat (TIMER_INTERVAL_TICKS ns) = exact_ticks (unat ns)"
proof -
  from fit have "unat ns < 20971520000" by (simp only: exact_ticks_fits_iff)
  then have "unat ns * 204800000 < 2 ^ 64" by simp
  then have "unat ns * 204800000 mod 2 ^ 64 = unat ns * 204800000" by (rule mod_less)
  then have "unat (TIMER_INTERVAL_TICKS ns) = exact_ticks (unat ns) mod 2 ^ 32"
    by (simp only: ticks_general exact_ticks_def)
  with fit show ?thesis by simp
qed

text \<open>
  C1, as the code has it. The macro computes the product modulo \<open>2 ^ 64\<close> and keeps the low
  32 bits of the quotient. It agrees with the exact reference \<open>exact_ticks\<close> whenever the
  exact tick count fits 32 bits, that is for every input below 20971520000 ns.
\<close>

theorem ticks_exact_when_fits:
  "unat (TIMER_INTERVAL_TICKS ns) = (unat ns * 204800000 mod 2 ^ 64 div 1000000000) mod 2 ^ 32 \<and>
   (exact_ticks (unat ns) < 2 ^ 32 \<longrightarrow> unat (TIMER_INTERVAL_TICKS ns) = exact_ticks (unat ns))"
proof (intro conjI impI)
  show "unat (TIMER_INTERVAL_TICKS ns) = (unat ns * 204800000 mod 2 ^ 64 div 1000000000) mod 2 ^ 32"
    by (rule ticks_general)
next
  assume "exact_ticks (unat ns) < 2 ^ 32"
  then show "unat (TIMER_INTERVAL_TICKS ns) = exact_ticks (unat ns)"
    by (rule ticks_exact_of_fit)
qed

theorem ticks_exact_when_fits_witness:
  "exact_ticks (unat (1000000000 :: uint64_t)) < 2 ^ 32 \<and>
   unat (TIMER_INTERVAL_TICKS 1000000000) = exact_ticks (unat (1000000000 :: uint64_t)) \<and>
   exact_ticks (unat (1000000000 :: uint64_t)) = 204800000"
proof -
  have h: "exact_ticks (unat (1000000000 :: uint64_t)) < 2 ^ 32"
    by (simp add: exact_ticks_def)
  have v: "exact_ticks (unat (1000000000 :: uint64_t)) = 204800000"
    by (simp add: exact_ticks_def)
  from ticks_exact_when_fits [of 1000000000] h v show ?thesis by blast
qed

text \<open>
  C1, as stated, fails: at 21 s the exact count 4300800000 does not fit 32 bits and the
  cast keeps 5832704; at 100 s the 64-bit product has already wrapped.
\<close>

theorem ticks_not_exact_counterexample:
  "unat (TIMER_INTERVAL_TICKS 21000000000) \<noteq> exact_ticks (unat (21000000000 :: uint64_t)) \<and>
   unat (TIMER_INTERVAL_TICKS 21000000000) = 5832704 \<and>
   exact_ticks (unat (21000000000 :: uint64_t)) = 4300800000 \<and>
   unat (TIMER_INTERVAL_TICKS 100000000000) \<noteq> exact_ticks (unat (100000000000 :: uint64_t)) \<and>
   unat (TIMER_INTERVAL_TICKS 100000000000) = 2033255926 \<and>
   exact_ticks (unat (100000000000 :: uint64_t)) = 20480000000"
  by (simp add: TIMER_INTERVAL_TICKS_def TICKS_PER_SECOND_def exact_ticks_def)

subsection \<open>Arming a timeout\<close>

lemma set_timeo_success_iff:
  "fst (keystone_set_timeo kt ns tcrFlags s) = Inr () \<longleftrightarrow> 2 \<le> unat (TIMER_INTERVAL_TICKS ns)"
  by (simp add: keystone_set_timeo_def ticks_var_less Let_def not_less)

lemma set_timeo_log:
  "2 \<le> unat (TIMER_INTERVAL_TICKS ns) \<Longrightarrow>
   log (snd (keystone_set_timeo kt ns tcrFlags s)) = log s @
     [Store (hw kt) TCR (tcr (mem s (hw kt)) AND NOT TCR_ENAMODE_MASK), Dmb,
      Store (hw kt) CNTLO 0, Store (hw kt) CNTHI 0,
      Store (hw kt) PRDLO (TIMER_INTERVAL_TICKS ns), Store (hw kt) PRDHI 0,
      Store (hw kt) INTCTLSTAT INTCTLSTAT_ACK_MASK, Dmb,
      Store (hw kt) TCR (tcr (mem s (hw kt)) OR tcrFlags)]"
  by (simp add: keystone_set_timeo_def ticks_var_less Let_def not_less hw_store_simps dmb_simps
      ticks_hi ticks_lo)

lemma set_timeo_regs:
  assumes "2 \<le> unat (TIMER_INTERVAL_TICKS ns)"
  shows "tcr (mem (snd (keystone_set_timeo kt ns tcrFlags s)) (hw kt)) = tcr (mem s (hw kt)) OR tcrFlags"
    and "prdlo (mem (snd (keystone_set_timeo kt ns tcrFlags s)) (hw kt)) = TIMER_INTERVAL_TICKS ns"
    and "prdhi (mem (snd (keystone_set_timeo kt ns tcrFlags s)) (hw kt)) = 0"
  using assms
  by (simp_all add: keystone_set_timeo_def ticks_var_less Let_def not_less hw_store_simps dmb_simps
      ticks_hi ticks_lo)

lemma demo_ticks: "unat (TIMER_INTERVAL_TICKS 1000) = 204"
  by (simp add: TIMER_INTERVAL_TICKS_def TICKS_PER_SECOND_def)

text \<open>
  C2 does not hold of the code. \<^verbatim>\<open>keystone_set_timeo\<close> computes the cleared value \<open>off\<close>,
  but ORs the requested flags into the value it read, not into \<open>off\<close>: a mode bit that
  was set before stays set. Arming one-shot after periodic writes \<open>0xC0\<close> to the control
  register, where the prior value with the mode bits cleared and the one-shot bit set
  is \<open>0x40\<close>.
\<close>

theorem oneshot_after_periodic_keeps_periodic_bit:
  "tcr (mem (snd (keystone_periodic demo_kt 1000 (boot 2 zero_map))) (hw demo_kt)) = 0x80 \<and>
   tcr (mem (snd (keystone_oneshot_relative demo_kt 1000
          (snd (keystone_periodic demo_kt 1000 (boot 2 zero_map))))) (hw demo_kt)) = 0xC0 \<and>
   (0x80 AND NOT TCR_ENAMODE_MASK) OR TCR_ENAMODE_ONESHOT_MASK = 0x40"
proof -
  have t: "2 \<le> unat (TIMER_INTERVAL_TICKS 1000)" by (simp add: demo_ticks)
  have z: "tcr (mem (boot 2 zero_map) (hw demo_kt)) = 0" by (simp add: boot_def zero_map_def)
  have p: "tcr (mem (snd (keystone_periodic demo_kt 1000 (boot 2 zero_map))) (hw demo_kt)) = 0x80"
    unfolding keystone_periodic_def
    by (simp add: set_timeo_regs(1) [OF t] z TCR_ENAMODE_PERIODIC_MASK_def)
  have q: "tcr (mem (snd (keystone_oneshot_relative demo_kt 1000
          (snd (keystone_periodic demo_kt 1000 (boot 2 zero_map))))) (hw demo_kt)) = 0xC0"
    unfolding keystone_oneshot_relative_def
    by (simp add: set_timeo_regs(1) [OF t] p TCR_ENAMODE_ONESHOT_MASK_def)
  have r: "(0x80 AND NOT TCR_ENAMODE_MASK) OR TCR_ENAMODE_ONESHOT_MASK = 0x40"
    by (simp add: TCR_ENAMODE_MASK_def TCR_ENAMODE_ONESHOT_MASK_def)
  from p q r show ?thesis by blast
qed

text \<open>
  C3. When the converted tick count is below 2, be it the value of the macro or the exact
  quotient, \<^verbatim>\<open>keystone_set_timeo\<close> returns \<^verbatim>\<open>EINVAL\<close> and the state it returns is the state
  it was given: no register, no log entry and no pool slot has changed. The same holds
  of its two callers.
\<close>

theorem set_timeo_rejects_short_period:
  assumes "unat (TIMER_INTERVAL_TICKS ns) < 2 \<or> exact_ticks (unat ns) < 2"
  shows "keystone_set_timeo kt ns tcrFlags s = (Inl EINVAL, s) \<and>
         keystone_periodic kt ns s = (Inl EINVAL, s) \<and>
         keystone_oneshot_relative kt ns s = (Inl EINVAL, s)"
proof -
  have small: "unat (TIMER_INTERVAL_TICKS ns) < 2"
  proof (cases "exact_ticks (unat ns) < 2")
    case True
    then have "exact_ticks (unat ns) < 2 ^ 32" by simp
    then have "unat (TIMER_INTERVAL_TICKS ns) = exact_ticks (unat ns)"
      by (rule ticks_exact_of_fit)
    with True show ?thesis by simp
  next
    case False
    with assms show ?thesis by simp
  qed
  have "keystone_set_timeo kt ns f s = (Inl EINVAL, s)" for f
    using small by (simp add: keystone_set_timeo_def ticks_var_less)
  then show ?thesis
    by (simp add: keystone_periodic_def keystone_oneshot_relative_def)
qed

theorem set_timeo_rejects_short_period_witness:
  "unat (TIMER_INTERVAL_TICKS 9) < 2 \<and>
   keystone_set_timeo demo_kt 9 TCR_ENAMODE_PERIODIC_MASK (boot 2 zero_map)
     = (Inl EINVAL, boot 2 zero_map) \<and>
   keystone_periodic demo_kt 9 (boot 2 zero_map) = (Inl EINVAL, boot 2 zero_map) \<and>
   keystone_oneshot_relative demo_kt 9 (boot 2 zero_map) = (Inl EINVAL, boot 2 zero_map)"
proof -
  have h: "unat (TIMER_INTERVAL_TICKS 9) < 2"
    by (simp add: TIMER_INTERVAL_TICKS_def TICKS_PER_SECOND_def)
  from set_timeo_rejects_short_period [OF disjI1 [OF h], of demo_kt TCR_ENAMODE_PERIODIC_MASK "boot 2 zero_map"] h
  show ?thesis by blast
qed

text \<open>
  C4. A successful \<^verbatim>\<open>keystone_set_timeo\<close> appends exactly these entries to the log, in this
  order: the control register with both mode bits clear, a barrier, the two counter
  registers, the two period registers, the acknowledge pattern, a barrier, and last the
  control register with the requested mode bits set.
\<close>

theorem set_timeo_write_order:
  assumes "fst (keystone_set_timeo kt ns tcrFlags s) = Inr ()"
  shows "log (snd (keystone_set_timeo kt ns tcrFlags s)) = log s @
     [Store (hw kt) TCR (tcr (mem s (hw kt)) AND NOT TCR_ENAMODE_MASK), Dmb,
      Store (hw kt) CNTLO 0, Store (hw kt) CNTHI 0,
      Store (hw kt) PRDLO (TIMER_INTERVAL_TICKS ns), Store (hw kt) PRDHI 0,
      Store (hw kt) INTCTLSTAT INTCTLSTAT_ACK_MASK, Dmb,
      Store (hw kt) TCR (tcr (mem s (hw kt)) OR tcrFlags)] \<and>
     (tcr (mem s (hw kt)) AND NOT TCR_ENAMODE_MASK) AND TCR_ENAMODE_MASK = 0 \<and>
     (tcr (mem s (hw kt)) OR tcrFlags) AND tcrFlags = tcrFlags"
proof (intro conjI)
  from assms have t: "2 \<le> unat (TIMER_INTERVAL_TICKS ns)"
    by (simp only: set_timeo_success_iff)
  then show "log (snd (keystone_set_timeo kt ns tcrFlags s)) = log s @
     [Store (hw kt) TCR (tcr (mem s (hw kt)) AND NOT TCR_ENAMODE_MASK), Dmb,
      Store (hw kt) CNTLO 0, Store (hw kt) CNTHI 0,
      Store (hw kt) PRDLO (TIMER_INTERVAL_TICKS ns), Store (hw kt) PRDHI 0,
      Store (hw kt) INTCTLSTAT INTCTLSTAT_ACK_MASK, Dmb,
      Store (hw kt) TCR (tcr (mem s (hw kt)) OR tcrFlags)]"
    by (rule set_timeo_log)
next
  show "(tcr (mem s (hw kt)) AND NOT TCR_ENAMODE_MASK) AND TCR_ENAMODE_MASK = 0"
    by (simp add: and.assoc)
next
  show "(tcr (mem s (hw kt)) OR tcrFlags) AND tcrFlags = tcrFlags"
    by (rule bit_word_eqI) (auto simp add: bit_simps)
qed

theorem set_timeo_write_order_witness:
  "fst (keystone_set_timeo demo_kt 1000 TCR_ENAMODE_ONESHOT_MASK (boot 2 zero_map)) = Inr () \<and>
   log (snd (keystone_set_timeo demo_kt 1000 TCR_ENAMODE_ONESHOT_MASK (boot 2 zero_map))) =
     [Store 0x2200000 TCR 0, Dmb, Store 0x2200000 CNTLO 0, Store 0x2200000 CNTHI 0,
      Store 0x2200000 PRDLO 204, Store 0x2200000 PRDHI 0, Store 0x2200000 INTCTLSTAT 3, Dmb,
      Store 0x2200000 TCR 0x40]"
proof -
  have h: "fst (keystone_set_timeo demo_kt 1000 TCR_ENAMODE_ONESHOT_MASK (boot 2 zero_map)) = Inr ()"
    by (simp add: set_timeo_success_iff demo_ticks)
  have v: "TIMER_INTERVAL_TICKS 1000 = 204"
    by (simp add: TIMER_INTERVAL_TICKS_def TICKS_PER_SECOND_def)
  have z: "tcr (mem (boot 2 zero_map) a) = 0" "log (boot 2 zero_map) = []"
    "hw demo_kt = 0x2200000" for a
    by (simp_all add: boot_def zero_map_def demo_kt_def)
  from set_timeo_write_order [OF h] h show ?thesis
    by (simp add: z v TCR_ENAMODE_MASK_def TCR_ENAMODE_ONESHOT_MASK_def INTCTLSTAT_ACK_MASK_def)
qed

text \<open>
  C10. After a successful \<^verbatim>\<open>keystone_set_timeo\<close> the only value stored to the period-high
  register is 0 and the register holds 0; the period-low register holds the 32-bit value
  of the macro, so the programmed 64-bit period is below \<open>2 ^ 32\<close>.
\<close>

theorem set_timeo_period_high_zero:
  assumes "fst (keystone_set_timeo kt ns tcrFlags s) = Inr ()"
  shows "stores_to (hw kt) PRDHI (drop (length (log s)) (log (snd (keystone_set_timeo kt ns tcrFlags s)))) = [0] \<and>
         prdhi (mem (snd (keystone_set_timeo kt ns tcrFlags s)) (hw kt)) = 0 \<and>
         prdlo (mem (snd (keystone_set_timeo kt ns tcrFlags s)) (hw kt)) = TIMER_INTERVAL_TICKS ns \<and>
         unat (prdhi (mem (snd (keystone_set_timeo kt ns tcrFlags s)) (hw kt))) * 2 ^ 32
           + unat (prdlo (mem (snd (keystone_set_timeo kt ns tcrFlags s)) (hw kt))) \<le> 2 ^ 32 - 1"
proof -
  from assms have t: "2 \<le> unat (TIMER_INTERVAL_TICKS ns)"
    by (simp only: set_timeo_success_iff)
  have b: "unat (TIMER_INTERVAL_TICKS ns) < 2 ^ 32"
    using unsigned_less [of "TIMER_INTERVAL_TICKS ns"] by simp
  have l: "stores_to (hw kt) PRDHI (drop (length (log s)) (log (snd (keystone_set_timeo kt ns tcrFlags s)))) = [0]"
    by (simp add: set_timeo_log [OF t])
  from l b show ?thesis
    by (simp add: set_timeo_regs [OF t])
qed

theorem set_timeo_period_high_zero_witness:
  "fst (keystone_set_timeo demo_kt 18446744073709551615 TCR_ENAMODE_PERIODIC_MASK (boot 2 zero_map)) = Inr () \<and>
   prdhi (mem (snd (keystone_set_timeo demo_kt 18446744073709551615 TCR_ENAMODE_PERIODIC_MASK
     (boot 2 zero_map))) (hw demo_kt)) = 0"
proof -
  have v: "unat (TIMER_INTERVAL_TICKS 18446744073709551615) = 1266874889"
    by (simp add: TIMER_INTERVAL_TICKS_def TICKS_PER_SECOND_def)
  have h: "fst (keystone_set_timeo demo_kt 18446744073709551615 TCR_ENAMODE_PERIODIC_MASK (boot 2 zero_map)) = Inr ()"
    by (simp add: set_timeo_success_iff v)
  from set_timeo_period_high_zero [OF h] h show ?thesis by blast
qed

subsection \<open>Start and stop\<close>

text \<open>
  C5. A second \<^verbatim>\<open>stop\<close> (or \<^verbatim>\<open>start\<close>) leaves every register of every device and both
  pools as the first one left them; only the log grows, by the repeated store. After
  \<^verbatim>\<open>stop\<close> both mode bits are clear, after \<^verbatim>\<open>start\<close> both are set, and both return 0.
\<close>

theorem start_stop_idempotent:
  "mem (snd (keystone_timer_stop kt (snd (keystone_timer_stop kt s)))) = mem (snd (keystone_timer_stop kt s)) \<and>
   timers (snd (keystone_timer_stop kt (snd (keystone_timer_stop kt s)))) = timers (snd (keystone_timer_stop kt s)) \<and>
   kts (snd (keystone_timer_stop kt (snd (keystone_timer_stop kt s)))) = kts (snd (keystone_timer_stop kt s)) \<and>
   tcr (mem (snd (keystone_timer_stop kt s)) (hw kt)) AND TCR_ENAMODE_MASK = 0 \<and>
   mem (snd (keystone_timer_start kt (snd (keystone_timer_start kt s)))) = mem (snd (keystone_timer_start kt s)) \<and>
   timers (snd (keystone_timer_start kt (snd (keystone_timer_start kt s)))) = timers (snd (keystone_timer_start kt s)) \<and>
   kts (snd (keystone_timer_start kt (snd (keystone_timer_start kt s)))) = kts (snd (keystone_timer_start kt s)) \<and>
   tcr (mem (snd (keystone_timer_start kt s)) (hw kt)) AND TCR_ENAMODE_MASK = TCR_ENAMODE_MASK \<and>
   fst (keystone_timer_stop kt s) = Inr () \<and>
   fst (keystone_timer_stop kt (snd (keystone_timer_stop kt s))) = Inr () \<and>
   fst (keystone_timer_start kt s) = Inr () \<and>
   fst (keystone_timer_start kt (snd (keystone_timer_start kt s))) = Inr ()"
proof -
  have a: "(x AND NOT TCR_ENAMODE_MASK) AND NOT TCR_ENAMODE_MASK = x AND NOT TCR_ENAMODE_MASK"
    for x by (simp add: and.assoc)
  have b: "(x OR TCR_ENAMODE_MASK) OR TCR_ENAMODE_MASK = x OR TCR_ENAMODE_MASK"
    for x by (simp add: or.assoc)
  have c: "(x AND NOT TCR_ENAMODE_MASK) AND TCR_ENAMODE_MASK = 0"
    for x by (simp add: and.assoc)
  have d: "(x OR TCR_ENAMODE_MASK) AND TCR_ENAMODE_MASK = TCR_ENAMODE_MASK"
    for x by (rule bit_word_eqI) (auto simp add: bit_simps)
  show ?thesis
    by (simp add: keystone_timer_stop_def keystone_timer_start_def hw_store_simps a b c d)
qed

subsection \<open>Reset and construction\<close>

lemma reset_log:
  "log (keystone_timer_reset kt s) = log s @
     [Store (hw kt) TCR 0, Dmb, Store (hw kt) TGCR 0, Store (hw kt) TGCR TGCR_TIM_UNRESET_MASK,
      Store (hw kt) CNTLO 0, Store (hw kt) CNTHI 0,
      Store (hw kt) INTCTLSTAT INTCTLSTAT_ENINT_MASK]"
  by (simp add: keystone_timer_reset_def Let_def hw_store_simps dmb_simps)

lemma reset_pools:
  "timers (keystone_timer_reset kt s) = timers s"
  "kts (keystone_timer_reset kt s) = kts s"
  by (simp_all add: keystone_timer_reset_def Let_def hw_store_simps dmb_simps)

lemma ps_get_timer_valid:
  assumes "tid < NTIMERS" and "pools_ok NTIMERS s"
  shows "fst (ps_get_timer NTIMERS tid config s) = Some tid"
    and "kts (snd (ps_get_timer NTIMERS tid config s)) ! tid
          = \<lparr>hw = config_vaddr config, irq = config_irq config\<rparr>"
    and "data (timers (snd (ps_get_timer NTIMERS tid config s)) ! tid) = Some tid"
    and "mem (snd (ps_get_timer NTIMERS tid config s))
          = mem (keystone_timer_reset \<lparr>hw = config_vaddr config, irq = config_irq config\<rparr> s)"
    and "log (snd (ps_get_timer NTIMERS tid config s))
          = log (keystone_timer_reset \<lparr>hw = config_vaddr config, irq = config_irq config\<rparr> s)"
proof -
  from assms have l: "tid < length (timers s)" "tid < length (kts s)" "\<not> NTIMERS \<le> tid"
    by (simp_all add: pools_ok_def)
  show "fst (ps_get_timer NTIMERS tid config s) = Some tid"
    using l by (simp add: ps_get_timer_def Let_def)
  show "kts (snd (ps_get_timer NTIMERS tid config s)) ! tid
          = \<lparr>hw = config_vaddr config, irq = config_irq config\<rparr>"
    using l by (simp add: ps_get_timer_def Let_def reset_pools)
  show "data (timers (snd (ps_get_timer NTIMERS tid config s)) ! tid) = Some tid"
    using l by (simp add: ps_get_timer_def Let_def reset_pools)
  show "mem (snd (ps_get_timer NTIMERS tid config s))
          = mem (keystone_timer_reset \<lparr>hw = config_vaddr config, irq = config_irq config\<rparr> s)"
    using l by (simp add: ps_get_timer_def Let_def keystone_timer_reset_def hw_store_simps dmb_simps)
  show "log (snd (ps_get_timer NTIMERS tid config s))
          = log (keystone_timer_reset \<lparr>hw = config_vaddr config, irq = config_irq config\<rparr> s)"
    using l by (simp add: ps_get_timer_def Let_def keystone_timer_reset_def hw_store_simps dmb_simps)
qed

lemma demo_pools: "pools_ok 2 (boot 2 zero_map)"
  by (simp add: pools_ok_def boot_def)

text \<open>
  C6. With \<open>tid \<ge> NTIMERS\<close>, \<^verbatim>\<open>ps_get_timer\<close> returns \<^verbatim>\<open>NULL\<close> and the state it was given:
  no device register, no log entry and no pool slot has changed.
\<close>

theorem ps_get_timer_rejects_bad_id:
  assumes "NTIMERS \<le> tid"
  shows "ps_get_timer NTIMERS tid config s = (None, s)"
  using assms by (simp add: ps_get_timer_def)

theorem ps_get_timer_rejects_bad_id_witness:
  "(2::nat) \<le> 2 \<and> ps_get_timer 2 2 demo_config (boot 2 zero_map) = (None, boot 2 zero_map) \<and>
   (2::nat) \<le> 7 \<and> ps_get_timer 2 7 demo_config (boot 2 zero_map) = (None, boot 2 zero_map)"
proof -
  have h: "(2::nat) \<le> 2" and k: "(2::nat) \<le> 7" by simp_all
  from ps_get_timer_rejects_bad_id [OF h, of demo_config "boot 2 zero_map"]
    ps_get_timer_rejects_bad_id [OF k, of demo_config "boot 2 zero_map"] h k
  show ?thesis by blast
qed

text \<open>
  C7. \<^verbatim>\<open>keystone_timer_reset\<close> appends to the log: control register 0, a barrier,
  global control 0, global control un-reset, counter low 0, counter high 0, interrupt
  enable. For a valid \<open>tid\<close>, \<^verbatim>\<open>ps_get_timer\<close> returns the handle of slot \<open>tid\<close>, and the
  device memory and the log it leaves are those of this reset run on the device at
  \<^verbatim>\<open>config->vaddr\<close>: the reset is its only access to the device.
\<close>

theorem reset_sequence:
  "log (keystone_timer_reset kt s) = log s @
     [Store (hw kt) TCR 0, Dmb, Store (hw kt) TGCR 0, Store (hw kt) TGCR TGCR_TIM_UNRESET_MASK,
      Store (hw kt) CNTLO 0, Store (hw kt) CNTHI 0,
      Store (hw kt) INTCTLSTAT INTCTLSTAT_ENINT_MASK] \<and>
   (tid < NTIMERS \<and> pools_ok NTIMERS s \<longrightarrow>
      fst (ps_get_timer NTIMERS tid config s) = Some tid \<and>
      mem (snd (ps_get_timer NTIMERS tid config s))
        = mem (keystone_timer_reset \<lparr>hw = config_vaddr config, irq = config_irq config\<rparr> s) \<and>
      log (snd (ps_get_timer NTIMERS tid config s)) = log s @
        [Store (config_vaddr config) TCR 0, Dmb, Store (config_vaddr config) TGCR 0,
         Store (config_vaddr config) TGCR TGCR_TIM_UNRESET_MASK,
         Store (config_vaddr config) CNTLO 0, Store (config_vaddr config) CNTHI 0,
         Store (config_vaddr config) INTCTLSTAT INTCTLSTAT_ENINT_MASK])"
proof (intro conjI impI)
  show "log (keystone_timer_reset kt s) = log s @
     [Store (hw kt) TCR 0, Dmb, Store (hw kt) TGCR 0, Store (hw kt) TGCR TGCR_TIM_UNRESET_MASK,
      Store (hw kt) CNTLO 0, Store (hw kt) CNTHI 0,
      Store (hw kt) INTCTLSTAT INTCTLSTAT_ENINT_MASK]"
    by (rule reset_log)
next
  assume v: "tid < NTIMERS \<and> pools_ok NTIMERS s"
  then show "fst (ps_get_timer NTIMERS tid config s) = Some tid"
    by (simp add: ps_get_timer_valid(1))
  from v show "mem (snd (ps_get_timer NTIMERS tid config s))
        = mem (keystone_timer_reset \<lparr>hw = config_vaddr config, irq = config_irq config\<rparr> s)"
    by (simp add: ps_get_timer_valid(4))
  from v show "log (snd (ps_get_timer NTIMERS tid config s)) = log s @
        [Store (config_vaddr config) TCR 0, Dmb, Store (config_vaddr config) TGCR 0,
         Store (config_vaddr config) TGCR TGCR_TIM_UNRESET_MASK,
         Store (config_vaddr config) CNTLO 0, Store (config_vaddr config) CNTHI 0,
         Store (config_vaddr config) INTCTLSTAT INTCTLSTAT_ENINT_MASK]"
    by (simp add: ps_get_timer_valid(5) reset_log)
qed

theorem reset_sequence_witness:
  "(1::nat) < 2 \<and> pools_ok 2 (boot 2 zero_map) \<and>
   fst (ps_get_timer 2 1 demo_config (boot 2 zero_map)) = Some 1 \<and>
   log (snd (ps_get_timer 2 1 demo_config (boot 2 zero_map))) =
     [Store 0x2200000 TCR 0, Dmb, Store 0x2200000 TGCR 0, Store 0x2200000 TGCR 3,
      Store 0x2200000 CNTLO 0, Store 0x2200000 CNTHI 0, Store 0x2200000 INTCTLSTAT 1]"
proof -
  have h: "(1::nat) < 2 \<and> pools_ok 2 (boot 2 zero_map)"
    by (simp add: demo_pools)
  have z: "log (boot 2 zero_map) = []" "config_vaddr demo_config = 0x2200000"
    by (simp_all add: boot_def demo_config_def)
  from reset_sequence [of demo_kt "boot 2 zero_map" 1 2 demo_config] h show ?thesis
    by (simp add: z TGCR_TIM_UNRESET_MASK_def INTCTLSTAT_ENINT_MASK_def)
qed

subsection \<open>Interrupts\<close>

text \<open>
  \<^verbatim>\<open>keystone_handle_irq\<close> makes one store, of the acknowledge pattern, to the interrupt
  control and status register, whatever the state and the \<open>irq\<close> argument, and touches
  neither pool. What the register reads back afterwards is the device's reaction to that
  store (a status bit is cleared by writing 1 to it); it is not in the C source, and
  nothing is stated about it here.
\<close>

lemma handle_irq_log:
  "log (keystone_handle_irq kt irq_arg s) = log s @ [Store (hw kt) INTCTLSTAT INTCTLSTAT_ACK_MASK]"
  "timers (keystone_handle_irq kt irq_arg s) = timers s"
  "kts (keystone_handle_irq kt irq_arg s) = kts s"
  by (simp_all add: keystone_handle_irq_def hw_store_simps)

text \<open>
  C9. \<^verbatim>\<open>keystone_get_nth_irq\<close> returns \<^verbatim>\<open>kt->irq\<close> whatever \<open>n\<close> is, and for the timer
  that \<^verbatim>\<open>ps_get_timer\<close> has bound to slot \<open>tid\<close> this is \<^verbatim>\<open>config->irq\<close>.
\<close>

theorem get_nth_irq_ignores_n:
  "keystone_get_nth_irq kt n = irq kt \<and>
   keystone_get_nth_irq kt n = keystone_get_nth_irq kt n' \<and>
   (tid < NTIMERS \<and> pools_ok NTIMERS s \<longrightarrow>
      fst (ps_get_timer NTIMERS tid config s) = Some tid \<and>
      data (timers (snd (ps_get_timer NTIMERS tid config s)) ! tid) = Some tid \<and>
      keystone_get_nth_irq (kts (snd (ps_get_timer NTIMERS tid config s)) ! tid) n
        = config_irq config)"
  by (simp add: keystone_get_nth_irq_def ps_get_timer_valid)

theorem get_nth_irq_ignores_n_witness:
  "(0::nat) < 2 \<and> pools_ok 2 (boot 2 zero_map) \<and>
   keystone_get_nth_irq (kts (snd (ps_get_timer 2 0 demo_config (boot 2 zero_map))) ! 0) 0 = 96 \<and>
   keystone_get_nth_irq (kts (snd (ps_get_timer 2 0 demo_config (boot 2 zero_map))) ! 0) 4294967295 = 96"
proof -
  have h: "(0::nat) < 2 \<and> pools_ok 2 (boot 2 zero_map)"
    by (simp add: demo_pools)
  have z: "config_irq demo_config = 96"
    by (simp add: demo_config_def)
  from get_nth_irq_ignores_n [of demo_kt 0 0 0 2 "boot 2 zero_map" demo_config]
    get_nth_irq_ignores_n [of demo_kt 4294967295 0 0 2 "boot 2 zero_map" demo_config] h z
  show ?thesis by simp
qed

end
